theory Spec2Isabelle
  imports Main
begin

section \<open>The fit-file importer of bbm (fits/import\_fits.py)\<close>

text \<open>
  The importer reads a text file of \<open>name = expression\<close> lines and returns a dictionary
  from names to the values of the expressions. This theory embeds the function
  \<open>import_fits(filename, m)\<close> and the string operations of Python it uses, and proves
  what the function does with comment lines, with lines that have no \<open>=\<close>, with blank
  lines, with duplicate keys, with the symbol source \<open>m\<close> and with errors.

  Conventions of the embedding:
  \<^item> A Python \<open>str\<close> is a \<open>string\<close>; a character stands for a code point below 256.
  \<^item> A Python \<open>dict\<close> is an association list in insertion order with distinct keys;
    item assignment is \<open>setitem\<close>.
  \<^item> An exception is the \<open>Inl\<close> of a sum type, a returned value the \<open>Inr\<close>.
  \<^item> The file system and the attributes of namespace-like objects (modules) live in
    an explicit \<open>world\<close>, which the evaluation of an expression may change.
  \<^item> Python's builtin \<open>eval\<close> is a parameter \<open>ev\<close> of the importer. Besides the source
    text and the \<open>globals\<close> argument it receives the local variables of the calling
    frame (which \<open>eval\<close> uses when \<open>globals\<close> is \<open>None\<close>) and the world. It yields a value or an
    exception, and the world after the evaluation. The containers local to the
    importer (\<open>fits\<close>, \<open>fitLines\<close>, \<open>globalDict\<close>) are handed to it as values: an
    expression that would change them in place is outside the embedding.
\<close>

subsection \<open>Strings\<close>

text \<open>\<open>str.isspace\<close> on a single character, for the code points below 256.\<close>

definition py_isspace :: "char \<Rightarrow> bool" where
  "py_isspace c \<longleftrightarrow>
     c \<in> {CHR 0x09, CHR 0x0A, CHR 0x0B, CHR 0x0C, CHR 0x0D,
          CHR 0x1C, CHR 0x1D, CHR 0x1E, CHR 0x1F, CHR 0x20, CHR 0x85, CHR 0xA0}"

text \<open>\<open>s.strip()\<close>: whitespace removed at both ends.\<close>

definition strip :: "string \<Rightarrow> string" where
  "strip s = rev (dropWhile py_isspace (rev (dropWhile py_isspace s)))"

text \<open>\<open>s.startswith(p)\<close>.\<close>

definition startswith :: "string \<Rightarrow> string \<Rightarrow> bool" where
  "startswith s p \<longleftrightarrow> take (length p) s = p"

text \<open>\<open>s.find(c)\<close> for a single character: the index of its first occurrence, or \<open>-1\<close>.\<close>

fun py_find :: "string \<Rightarrow> char \<Rightarrow> int" where
  "py_find [] c = - 1"
| "py_find (x # xs) c =
     (if x = c then 0
      else (let r = py_find xs c in if r < 0 then - 1 else r + 1))"

text \<open>
  \<open>s[i:j]\<close>: a negative bound counts from the end, and every bound is clipped to
  \<open>0 .. len(s)\<close>; an empty range gives the empty string.
\<close>

definition slice_bound :: "nat \<Rightarrow> int \<Rightarrow> nat" where
  "slice_bound n i = (if i < 0 then nat (max 0 (int n + i)) else min n (nat i))"

definition py_slice :: "string \<Rightarrow> int \<Rightarrow> int \<Rightarrow> string" where
  "py_slice s i j =
     (let a = slice_bound (length s) i; b = slice_bound (length s) j
      in take (b - a) (drop a s))"

text \<open>
  \<open>f.readlines()\<close> on the text of a file (decoded, with the line ends already
  translated to \<open>\n\<close> as text mode does): the lines, each with its terminating newline;
  only the last line can lack one.
\<close>

fun readlines :: "string \<Rightarrow> string list" where
  "readlines [] = []"
| "readlines (c # cs) =
     (if c = CHR 0x0A then [c] # readlines cs
      else (case readlines cs of
              [] \<Rightarrow> [[c]]
            | l # ls \<Rightarrow> (c # l) # ls))"

subsection \<open>Dictionaries, objects and the world\<close>

text \<open>\<open>d[k] = v\<close>: an existing key keeps its place and gets the new value, a new key goes last.\<close>

fun setitem :: "(string \<times> 'v) list \<Rightarrow> string \<Rightarrow> 'v \<Rightarrow> (string \<times> 'v) list" where
  "setitem [] k v = [(k, v)]"
| "setitem ((k', v') # d) k v =
     (if k' = k then (k, v) # d else (k', v') # setitem d k v)"

text \<open>
  The world: the text of every readable file, and the attributes of every
  namespace-like object, by reference.
\<close>

record ('r, 'v) world =
  files :: "string \<Rightarrow> string option"
  attrs :: "'r \<Rightarrow> (string \<times> 'v) list"

text \<open>
  \<open>dir(m)\<close> lists the names of the attributes and \<open>getattr(m, d)\<close> reads one. (Python
  sorts the list of \<open>dir\<close>; the importer only fills a dictionary from it.)
\<close>

definition py_dir :: "('r, 'v) world \<Rightarrow> 'r \<Rightarrow> string list" where
  "py_dir w r = map fst (attrs w r)"

definition getattr :: "('r, 'v) world \<Rightarrow> 'r \<Rightarrow> string \<Rightarrow> 'v option" where
  "getattr w r d = map_of (attrs w r) d"

text \<open>
  The exceptions that leave \<open>import_fits\<close>: \<open>OSError\<close> from \<open>open\<close> (the file is missing or
  unreadable: the file access error), \<open>AttributeError\<close> from \<open>getattr\<close>, and whatever the
  evaluation of an expression raises. The function raises no exception of its own.
\<close>

datatype 'e error = OSError | AttributeError | Raised 'e

subsection \<open>The importer\<close>

text \<open>
  The local variables of \<open>import_fits\<close> at the moment \<open>eval\<close> is called (the closed file
  object \<open>fitFile\<close> is left out).
\<close>

record ('r, 'v) frame =
  l_filename :: string
  l_m :: "'r option"
  l_globalDict :: "(string \<times> 'v) list option"
  l_fits :: "(string \<times> 'v) list"
  l_fitLines :: "string list"
  l_line :: string
  l_split :: int
  l_key :: string
  l_val :: string

type_synonym ('r, 'v, 'e) evaluator =
  "string \<Rightarrow> (string \<times> 'v) list option \<Rightarrow> ('r, 'v) frame \<Rightarrow> ('r, 'v) world
     \<Rightarrow> ('e + 'v) \<times> ('r, 'v) world"

text \<open>
  Lines 17 to 22: \<open>globalDict\<close> is \<open>None\<close> when \<open>m\<close> is \<open>None\<close>, and otherwise the dictionary
  filled by \<open>for d in dir(m): globalDict[d] = getattr(m, d)\<close>.
\<close>

fun fill_dict ::
  "('r, 'v) world \<Rightarrow> 'r \<Rightarrow> string list \<Rightarrow> (string \<times> 'v) list \<Rightarrow> 'e error + (string \<times> 'v) list"
where
  "fill_dict w r [] globalDict = Inr globalDict"
| "fill_dict w r (d # ds) globalDict =
     (case getattr w r d of
        None \<Rightarrow> Inl AttributeError
      | Some v \<Rightarrow> fill_dict w r ds (setitem globalDict d v))"

definition global_dict ::
  "('r, 'v) world \<Rightarrow> 'r option \<Rightarrow> 'e error + (string \<times> 'v) list option"
where
  "global_dict w m =
     (case m of
        Some r \<Rightarrow> (case fill_dict w r (py_dir w r) [] of
                     Inl err \<Rightarrow> Inl err
                   | Inr globalDict \<Rightarrow> Inr (Some globalDict))
      | None \<Rightarrow> Inr None)"

text \<open>Lines 33 to 35: the split position, the key and the expression of a line.\<close>

definition split_of :: "string \<Rightarrow> int" where
  "split_of line = py_find line (CHR ''='')"

definition key_of :: "string \<Rightarrow> string" where
  "key_of line = strip (py_slice line 0 (split_of line - 1))"

definition val_of :: "string \<Rightarrow> string" where
  "val_of line = strip (py_slice line (split_of line + 1) (- 1))"

text \<open>
  The locals as \<open>eval\<close> finds them while the loop is at \<open>line\<close> with the dictionary
  \<open>fits\<close> built so far, and as they are when the loop starts.
\<close>

definition frame_at ::
  "('r, 'v) frame \<Rightarrow> (string \<times> 'v) list \<Rightarrow> string \<Rightarrow> ('r, 'v) frame"
where
  "frame_at fr fits line =
     fr\<lparr>l_fits := fits, l_line := line, l_split := split_of line,
        l_key := key_of line, l_val := val_of line\<rparr>"

definition start_frame ::
  "string \<Rightarrow> 'r option \<Rightarrow> (string \<times> 'v) list option \<Rightarrow> string list \<Rightarrow> ('r, 'v) frame"
where
  "start_frame filename m globalDict fitLines =
     \<lparr>l_filename = filename, l_m = m, l_globalDict = globalDict, l_fits = [],
      l_fitLines = fitLines, l_line = [], l_split = 0, l_key = [], l_val = []\<rparr>"

text \<open>
  Lines 31 to 37, the loop over \<open>fitLines\<close>: a line that starts with \<open>#\<close> is passed
  over; for any other line \<open>fits[key] = eval(val, globalDict)\<close> is executed. An
  exception of \<open>eval\<close> ends the loop and the function.
\<close>

fun import_loop ::
  "('r, 'v, 'e) evaluator \<Rightarrow> ('r, 'v) frame \<Rightarrow> string list \<Rightarrow> (string \<times> 'v) list
     \<Rightarrow> ('r, 'v) world \<Rightarrow> ('e error + (string \<times> 'v) list) \<times> ('r, 'v) world"
where
  "import_loop ev fr [] fits w = (Inr fits, w)"
| "import_loop ev fr (line # rest) fits w =
     (if \<not> startswith line ''#'' then
        (case ev (val_of line) (l_globalDict fr) (frame_at fr fits line) w of
           (Inl e, w') \<Rightarrow> (Inl (Raised e), w')
         | (Inr v, w') \<Rightarrow> import_loop ev fr rest (setitem fits (key_of line) v) w')
      else import_loop ev fr rest fits w)"

text \<open>
  The whole function: the environment first, then the file is opened and read, then
  the loop runs. The world that is returned is the one the evaluations left.
\<close>

definition import_fits ::
  "('r, 'v, 'e) evaluator \<Rightarrow> ('r, 'v) world \<Rightarrow> string \<Rightarrow> 'r option
     \<Rightarrow> ('e error + (string \<times> 'v) list) \<times> ('r, 'v) world"
where
  "import_fits ev w filename m =
     (case global_dict w m of
        Inl err \<Rightarrow> (Inl err, w)
      | Inr globalDict \<Rightarrow>
          (case files w filename of
             None \<Rightarrow> (Inl OSError, w)
           | Some text \<Rightarrow>
               (let fitLines = readlines text
                in import_loop ev (start_frame filename m globalDict fitLines)
                     fitLines [] w)))"

subsection \<open>The key and the expression as the file format describes them\<close>

text \<open>
  The format \<open>key = expression\<close> read at the first \<open>=\<close>: the key is what stands before
  it, less the one character next to it, and the expression what stands after it, less
  the last character of the line; both stripped. These two follow the description of
  the format, not the code.
\<close>

definition spec_key :: "string \<Rightarrow> string" where
  "spec_key line = strip (butlast (takeWhile (\<lambda>c. c \<noteq> CHR ''='') line))"

definition spec_val :: "string \<Rightarrow> string" where
  "spec_val line = strip (butlast (tl (dropWhile (\<lambda>c. c \<noteq> CHR ''='') line)))"


subsection \<open>An evaluator for a fragment of Python's expressions\<close>

text \<open>
  For runs on concrete files: the values, and \<open>eval\<close> on the empty string (a syntax
  error), on a decimal integer literal, on a name and on a call \<open>name()\<close> without
  arguments. A name is looked up in the \<open>globals\<close> dictionary, or among the locals of
  the calling frame when \<open>globals\<close> is \<open>None\<close>. Everything else, also a name found in
  neither (it may be a builtin), is outside the fragment and marked \<open>Unsupported\<close>.
  What a function object does when called is given by \<open>funs\<close>, by the function's name.
\<close>

datatype pyval = IntV int | StrV string | NoneV | FuncV string | ObjV nat
  | DictV "(string \<times> pyval) list" | ListV "pyval list"

datatype pyexc = SyntaxError | TypeError | Unsupported

definition frame_locals :: "(nat, pyval) frame \<Rightarrow> (string \<times> pyval) list" where
  "frame_locals fr =
     [(''filename'', StrV (l_filename fr)),
      (''m'', case l_m fr of None \<Rightarrow> NoneV | Some r \<Rightarrow> ObjV r),
      (''globalDict'', case l_globalDict fr of None \<Rightarrow> NoneV | Some g \<Rightarrow> DictV g),
      (''fits'', DictV (l_fits fr)),
      (''fitLines'', ListV (map StrV (l_fitLines fr))),
      (''line'', StrV (l_line fr)),
      (''split'', IntV (l_split fr)),
      (''key'', StrV (l_key fr)),
      (''val'', StrV (l_val fr))]"

definition is_digit :: "char \<Rightarrow> bool" where
  "is_digit c \<longleftrightarrow> c \<in> set ''0123456789''"

definition is_name_start :: "char \<Rightarrow> bool" where
  "is_name_start c \<longleftrightarrow>
     c \<in> set ''abcdefghijklmnopqrstuvwxyzABCDEFGHIJKLMNOPQRSTUVWXYZ_''"

definition py_keywords :: "string list" where
  "py_keywords =
     [''False'', ''None'', ''True'', ''and'', ''as'', ''assert'', ''async'', ''await'',
      ''break'', ''class'', ''continue'', ''def'', ''del'', ''elif'', ''else'', ''except'',
      ''finally'', ''for'', ''from'', ''global'', ''if'', ''import'', ''in'', ''is'',
      ''lambda'', ''nonlocal'', ''not'', ''or'', ''pass'', ''raise'', ''return'', ''try'',
      ''while'', ''with'', ''yield'']"

definition is_name :: "string \<Rightarrow> bool" where
  "is_name s \<longleftrightarrow>
     (case s of
        [] \<Rightarrow> False
      | c # cs \<Rightarrow> is_name_start c \<and> (\<forall>x \<in> set cs. is_name_start x \<or> is_digit x))
     \<and> s \<notin> set py_keywords"

definition is_int_literal :: "string \<Rightarrow> bool" where
  "is_int_literal s \<longleftrightarrow>
     s \<noteq> [] \<and> (\<forall>c \<in> set s. is_digit c) \<and> (hd s \<noteq> CHR ''0'' \<or> s = ''0'')"

definition int_of_literal :: "string \<Rightarrow> int" where
  "int_of_literal s = foldl (\<lambda>n c. 10 * n + (of_char c - 48)) 0 s"

definition lookup_name ::
  "string \<Rightarrow> (string \<times> pyval) list option \<Rightarrow> (nat, pyval) frame \<Rightarrow> pyexc + pyval"
where
  "lookup_name n globals fr =
     (case map_of (case globals of Some g \<Rightarrow> g | None \<Rightarrow> frame_locals fr) n of
        Some v \<Rightarrow> Inr v
      | None \<Rightarrow> Inl Unsupported)"

definition frag_eval ::
  "(string \<Rightarrow> (nat, pyval) world \<Rightarrow> (pyexc + pyval) \<times> (nat, pyval) world)
     \<Rightarrow> (nat, pyval, pyexc) evaluator"
where
  "frag_eval funs s globals fr w =
     (if s = [] then (Inl SyntaxError, w)
      else if is_int_literal s then (Inr (IntV (int_of_literal s)), w)
      else if is_name s then (lookup_name s globals fr, w)
      else if is_name (take (length s - 2) s) \<and> drop (length s - 2) s = ''()'' then
        (case lookup_name (take (length s - 2) s) globals fr of
           Inl e \<Rightarrow> (Inl e, w)
         | Inr (FuncV f) \<Rightarrow> funs f w
         | Inr _ \<Rightarrow> (Inl TypeError, w))
      else (Inl Unsupported, w))"

text \<open>
  A module with a counter, as object \<open>0\<close>:
  \<^verbatim>\<open>
  count = 0
  def bump():
      global count
      count += 1
      return count
  \<close>
\<close>

definition counter_funs ::
  "string \<Rightarrow> (nat, pyval) world \<Rightarrow> (pyexc + pyval) \<times> (nat, pyval) world"
where
  "counter_funs f w =
     (if f = ''bump'' then
        (case map_of (attrs w 0) ''count'' of
           Some (IntV n) \<Rightarrow>
             (Inr (IntV (n + 1)),
              w\<lparr>attrs := (attrs w)(0 := setitem (attrs w 0) ''count'' (IntV (n + 1)))\<rparr>)
         | _ \<Rightarrow> (Inl TypeError, w))
      else (Inl Unsupported, w))"

definition counter_module :: "(string \<times> pyval) list" where
  "counter_module = [(''bump'', FuncV ''bump''), (''count'', IntV 0)]"

text \<open>A world with one file \<open>fits.txt\<close> of the given text and one object \<open>0\<close>.\<close>

definition one_file_world :: "string \<Rightarrow> (string \<times> pyval) list \<Rightarrow> (nat, pyval) world" where
  "one_file_world text a = \<lparr>files = [''fits.txt'' \<mapsto> text], attrs = (\<lambda>r. if r = 0 then a else [])\<rparr>"

subsection \<open>Concrete inputs\<close>

text \<open>
  A module with one function without side effects and one constant, as object \<open>0\<close>:
  \<^verbatim>\<open>
  scale = 3
  def answer():
      return 42
  \<close>
\<close>

definition pure_funs ::
  "string \<Rightarrow> (nat, pyval) world \<Rightarrow> (pyexc + pyval) \<times> (nat, pyval) world"
where
  "pure_funs f w = (if f = ''answer'' then (Inr (IntV 42), w) else (Inl Unsupported, w))"

definition pure_module :: "(string \<times> pyval) list" where
  "pure_module = [(''answer'', FuncV ''answer''), (''scale'', IntV 3)]"









section \<open>Properties\<close>

subsection \<open>Finding the separator and slicing\<close>

lemma py_find_absent: "c \<notin> set s \<Longrightarrow> py_find s c = - 1"
  by (induction s) auto

lemma py_find_append: "c \<notin> set k \<Longrightarrow> py_find (k @ c # e) c = int (length k)"
  by (induction k) (auto simp: Let_def)

lemma slice_bound_neg: "0 < k \<Longrightarrow> slice_bound n (- int k) = n - k"
  by (auto simp: slice_bound_def)

lemma slice_bound_pos: "slice_bound n (int a) = min n a"
  by (simp add: slice_bound_def)

lemma py_slice_to_minus_one: "py_slice s 0 (- 1) = butlast s"
proof -
  have "slice_bound (length s) (- 1) = length s - 1"
    using slice_bound_neg [of 1 "length s"] by simp
  moreover have "slice_bound (length s) 0 = 0"
    by (simp add: slice_bound_def)
  ultimately show ?thesis
    by (simp add: py_slice_def butlast_conv_take)
qed

lemma py_slice_to_minus_two: "py_slice s 0 (- 2) = butlast (butlast s)"
proof -
  have "slice_bound (length s) (- 2) = length s - 2"
    using slice_bound_neg [of 2 "length s"] by simp
  moreover have "slice_bound (length s) 0 = 0"
    by (simp add: slice_bound_def)
  ultimately show ?thesis
    by (simp add: py_slice_def butlast_conv_take)
qed

lemma py_slice_prefix: "py_slice s 0 (int n) = take n s"
proof -
  have "slice_bound (length s) 0 = 0"
    by (simp add: slice_bound_def)
  moreover have "take (min (length s) n) s = take n s"
    by (cases "n \<le> length s") (simp_all add: min_def)
  ultimately show ?thesis
    by (simp add: py_slice_def slice_bound_pos)
qed

lemma py_slice_rest: "py_slice s (int a) (- 1) = butlast (drop a s)"
proof -
  have b: "slice_bound (length s) (- 1) = length s - 1"
    using slice_bound_neg [of 1 "length s"] by simp
  show ?thesis
  proof (cases "a \<le> length s")
    case True
    then have "slice_bound (length s) (int a) = a"
      by (simp add: slice_bound_pos)
    with b show ?thesis
      by (simp add: py_slice_def butlast_conv_take)
  next
    case False
    then have "slice_bound (length s) (int a) = length s"
      by (simp add: slice_bound_pos)
    with b False show ?thesis
      by (simp add: py_slice_def)
  qed
qed

lemma key_of_no_separator:
  "CHR ''='' \<notin> set line \<Longrightarrow> key_of line = strip (butlast (butlast line))"
  by (simp add: key_of_def split_of_def py_find_absent py_slice_to_minus_two)

lemma val_of_no_separator:
  "CHR ''='' \<notin> set line \<Longrightarrow> val_of line = strip (butlast line)"
  by (simp add: val_of_def split_of_def py_find_absent py_slice_to_minus_one)

lemma val_of_separator:
  assumes "CHR ''='' \<notin> set k"
  shows "val_of (k @ CHR ''='' # e) = strip (butlast e)"
proof -
  have "split_of (k @ CHR ''='' # e) + 1 = int (Suc (length k))"
    using assms by (simp add: split_of_def py_find_append)
  then have "val_of (k @ CHR ''='' # e) = strip (butlast (drop (Suc (length k)) (k @ CHR ''='' # e)))"
    unfolding val_of_def by (simp only: py_slice_rest)
  then show ?thesis by simp
qed

lemma key_of_separator:
  assumes "CHR ''='' \<notin> set k" and "k \<noteq> []"
  shows "key_of (k @ CHR ''='' # e) = strip (butlast k)"
proof -
  have "split_of (k @ CHR ''='' # e) = int (length k)"
    using assms(1) by (simp add: split_of_def py_find_append)
  moreover from assms(2) have "int (length k) - 1 = int (length k - 1)"
    by (cases k) simp_all
  ultimately have "split_of (k @ CHR ''='' # e) - 1 = int (length k - 1)"
    by (simp only:)
  then have "key_of (k @ CHR ''='' # e) = strip (take (length k - 1) (k @ CHR ''='' # e))"
    unfolding key_of_def by (simp only: py_slice_prefix)
  then show ?thesis
    using assms(2) by (simp add: butlast_conv_take)
qed

lemma key_of_leading_separator: "key_of (CHR ''='' # e) = strip (butlast (CHR ''='' # e))"
  by (simp add: key_of_def split_of_def py_slice_to_minus_one del: butlast.simps)

lemma split_at_separator:
  assumes "c \<in> set line"
  shows "line = takeWhile (\<lambda>x. x \<noteq> c) line @ c # tl (dropWhile (\<lambda>x. x \<noteq> c) line)"
proof -
  from assms have "dropWhile (\<lambda>x. x \<noteq> c) line \<noteq> []" by simp
  moreover have "hd (dropWhile (\<lambda>x. x \<noteq> c) line) = c"
    using assms hd_dropWhile [of "\<lambda>x. x \<noteq> c" line] by auto
  ultimately have "dropWhile (\<lambda>x. x \<noteq> c) line = c # tl (dropWhile (\<lambda>x. x \<noteq> c) line)"
    by (cases "dropWhile (\<lambda>x. x \<noteq> c) line") auto
  then show ?thesis
    using takeWhile_dropWhile_id [of "\<lambda>x. x \<noteq> c" line] by simp
qed

subsection \<open>Lines\<close>


lemma readlines_nonempty: "l \<in> set (readlines s) \<Longrightarrow> l \<noteq> []"
  by (induction s arbitrary: l) (auto split: if_splits list.splits)

lemma concat_readlines: "concat (readlines s) = s"
  by (induction s) (auto split: list.splits)

lemma readlines_Nil: "readlines s = [] \<longleftrightarrow> s = []"
  by (cases s) (auto split: list.splits)

subsection \<open>Dictionaries\<close>

lemma map_of_setitem: "map_of (setitem d k v) = (map_of d)(k \<mapsto> v)"
  by (induction d k v rule: setitem.induct) (auto simp: fun_eq_iff)

lemma keys_setitem: "fst ` set (setitem d k v) = insert k (fst ` set d)"
  by (induction d k v rule: setitem.induct) auto

lemma distinct_setitem: "distinct (map fst d) \<Longrightarrow> distinct (map fst (setitem d k v))"
  by (induction d k v rule: setitem.induct) (auto simp: keys_setitem)

subsection \<open>The loop\<close>

lemma import_loop_append:
  "import_loop ev fr (xs @ ys) fits w =
     (case import_loop ev fr xs fits w of
        (Inl err, w') \<Rightarrow> (Inl err, w')
      | (Inr fits', w') \<Rightarrow> import_loop ev fr ys fits' w')"
  by (induction xs arbitrary: fits w) (auto split: prod.splits sum.splits)




lemma import_loop_step:
  "\<not> startswith l ''#'' \<Longrightarrow>
   import_loop ev fr (l # ls) fits w =
     (case ev (val_of l) (l_globalDict fr) (frame_at fr fits l) w of
        (Inl e, w') \<Rightarrow> (Inl (Raised e), w')
      | (Inr v, w') \<Rightarrow> import_loop ev fr ls (setitem fits (key_of l) v) w')"
  by simp


subsection \<open>The environment\<close>

lemma fill_dict_total:
  "set ds \<subseteq> fst ` set (attrs w r) \<Longrightarrow>
   \<exists>g'. (fill_dict w r ds g :: 'e error + (string \<times> 'v) list) = Inr g'"
proof (induction ds arbitrary: g)
  case Nil
  then show ?case by simp
next
  case (Cons d ds)
  then obtain v where v: "getattr w r d = Some v"
    by (cases "map_of (attrs w r) d") (auto simp: map_of_eq_None_iff getattr_def)
  from Cons.prems have "set ds \<subseteq> fst ` set (attrs w r)" by simp
  from Cons.IH [OF this, of "setitem g d v"] v show ?case by simp
qed

lemma fill_dict_map_of:
  "fill_dict w r ds g = Inr g' \<Longrightarrow>
   map_of g' k = (if k \<in> set ds then map_of (attrs w r) k else map_of g k)"
  by (induction ds arbitrary: g)
    (auto split: option.splits simp: map_of_setitem getattr_def)

lemma fill_dict_keys:
  "fill_dict w r ds g = Inr g' \<Longrightarrow> fst ` set g' = fst ` set g \<union> set ds"
  by (induction ds arbitrary: g)
    (auto split: option.splits simp: keys_setitem)

lemma fill_dict_distinct:
  "fill_dict w r ds g = Inr g' \<Longrightarrow> distinct (map fst g) \<Longrightarrow> distinct (map fst g')"
  by (induction ds arbitrary: g)
    (auto split: option.splits simp: distinct_setitem)

lemma global_dict_Some:
  "\<exists>g. (global_dict w (Some r) :: 'e error + (string \<times> 'v) list option) = Inr (Some g) \<and>
       map_of g = map_of (attrs w r) \<and>
       fst ` set g = set (py_dir w r) \<and> distinct (map fst g)"
proof -
  have "set (py_dir w r) \<subseteq> fst ` set (attrs w r)"
    by (simp add: py_dir_def)
  from fill_dict_total [OF this] obtain g where
    g: "(fill_dict w r (py_dir w r) [] :: 'e error + (string \<times> 'v) list) = Inr g"
    by blast
  have "map_of g k = map_of (attrs w r) k" for k
  proof (cases "k \<in> set (py_dir w r)")
    case True
    with fill_dict_map_of [OF g] show ?thesis by simp
  next
    case False
    then have "map_of (attrs w r) k = None"
      by (simp add: py_dir_def map_of_eq_None_iff)
    with False fill_dict_map_of [OF g, of k] show ?thesis by simp
  qed
  then have "map_of g = map_of (attrs w r)"
    by (simp add: fun_eq_iff)
  moreover have "fst ` set g = set (py_dir w r)"
    using fill_dict_keys [OF g] by simp
  moreover have "distinct (map fst g)"
    using fill_dict_distinct [OF g] by simp
  moreover have "(global_dict w (Some r) :: 'e error + (string \<times> 'v) list option) = Inr (Some g)"
    using g by (simp add: global_dict_def)
  ultimately show ?thesis by blast
qed

lemma global_dict_None: "global_dict w None = Inr None"
  by (simp add: global_dict_def)

subsection \<open>The loop and the evaluator\<close>

lemma import_loop_comments:
  "\<forall>l \<in> set ls. startswith l ''#'' \<Longrightarrow> import_loop ev fr ls fits w = (Inr fits, w)"
  by (induction ls) simp_all




subsection \<open>Blank lines\<close>




subsection \<open>The whole function\<close>

lemma import_fits_open:
  fixes ev :: "('r, 'v, 'e) evaluator"
  assumes "files w filename = Some text"
    and "(global_dict w m :: 'e error + (string \<times> 'v) list option) = Inr globalDict"
  shows "import_fits ev w filename m =
           import_loop ev (start_frame filename m globalDict (readlines text))
             (readlines text) [] w"
  using assms by (simp add: import_fits_def Let_def)

lemma global_dict_total:
  "\<exists>globalDict. (global_dict w m :: 'e error + (string \<times> 'v) list option) = Inr globalDict"
proof (cases m)
  case None
  then show ?thesis by (simp add: global_dict_None)
next
  case (Some r)
  with global_dict_Some [of w r] show ?thesis by blast
qed



lemma l_globalDict_start [simp]: "l_globalDict (start_frame filename m globalDict fitLines) = globalDict"
  by (simp add: start_frame_def)

lemma last_concat_last:
  "xss \<noteq> [] \<Longrightarrow> last xss \<noteq> [] \<Longrightarrow> last (concat xss) = last (last xss)"
proof (induction xss)
  case Nil
  then show ?case by simp
next
  case (Cons xs xss)
  show ?case
  proof (cases "xss = []")
    case True
    then show ?thesis by simp
  next
    case False
    with Cons.prems have "last xss \<noteq> []" by simp
    with False have "concat xss \<noteq> []" by (cases xss rule: rev_cases) auto
    with Cons.IH False \<open>last xss \<noteq> []\<close> show ?thesis by simp
  qed
qed

lemma last_readlines:
  assumes "s \<noteq> []"
  shows "last (last (readlines s)) = last s"
proof -
  from assms have ne: "readlines s \<noteq> []" by (simp add: readlines_Nil)
  then have "last (readlines s) \<in> set (readlines s)" by simp
  then have "last (readlines s) \<noteq> []" by (rule readlines_nonempty)
  with ne have "last (concat (readlines s)) = last (last (readlines s))"
    by (rule last_concat_last)
  then show ?thesis by (simp add: concat_readlines)
qed


subsection \<open>Unfolding for runs on concrete files\<close>

lemmas string_defs =
  key_of_def val_of_def split_of_def py_slice_def slice_bound_def strip_def py_isspace_def
  startswith_def

lemmas frag_defs =
  frag_eval_def is_int_literal_def is_digit_def int_of_literal_def is_name_def
  is_name_start_def py_keywords_def lookup_name_def frame_locals_def frame_at_def
  start_frame_def counter_funs_def counter_module_def pure_funs_def pure_module_def

lemmas run_defs =
  import_fits_def global_dict_def py_dir_def getattr_def one_file_world_def

section \<open>The claims\<close>

subsection \<open>C1: a line without a separator\<close>

text \<open>
  Claim C1 says that a non-comment line with no \<open>=\<close> makes \<open>import_fits\<close> fail with a
  MalformedLine error. The code has no such check. The file with the single line
  \<open>42\<close> is imported without any error: \<open>find\<close> returns \<open>-1\<close>, the key is \<open>line[0:-2]\<close>, the
  expression is \<open>line[0:-1]\<close>, and the entry \<open>4 \<mapsto> 42\<close> is stored.
\<close>

theorem no_separator_counterexample:
  "readlines ''42\<newline>'' = [''42\<newline>''] \<and>
   CHR ''='' \<notin> set ''42\<newline>'' \<and> \<not> startswith ''42\<newline>'' ''#'' \<and>
   import_fits (frag_eval counter_funs) (one_file_world ''42\<newline>'' []) ''fits.txt'' None
     = (Inr [(''4'', IntV 42)], one_file_world ''42\<newline>'' [])"
  by (simp add: run_defs string_defs frag_defs)

text \<open>
  Claim C1, amended: for a non-comment line with no \<open>=\<close> the key is the line without
  its last two characters, stripped, and the expression is the line without its last
  character, stripped. The expression is evaluated like that of any other line: an
  exception of the evaluation ends the import, and otherwise the value is stored under
  that key and the loop goes on. No error is raised for the missing separator.
\<close>

theorem line_without_separator:
  assumes "CHR ''='' \<notin> set line" and "\<not> startswith line ''#''"
  shows "key_of line = strip (butlast (butlast line)) \<and>
         val_of line = strip (butlast line) \<and>
         import_loop ev fr (line # rest) fits w =
           (case ev (strip (butlast line)) (l_globalDict fr) (frame_at fr fits line) w of
              (Inl e, w') \<Rightarrow> (Inl (Raised e), w')
            | (Inr v, w') \<Rightarrow>
                import_loop ev fr rest (setitem fits (strip (butlast (butlast line))) v) w')"
proof -
  have k: "key_of line = strip (butlast (butlast line))"
    using assms(1) by (rule key_of_no_separator)
  have v: "val_of line = strip (butlast line)"
    using assms(1) by (rule val_of_no_separator)
  have "import_loop ev fr (line # rest) fits w =
           (case ev (strip (butlast line)) (l_globalDict fr) (frame_at fr fits line) w of
              (Inl e, w') \<Rightarrow> (Inl (Raised e), w')
            | (Inr v, w') \<Rightarrow>
                import_loop ev fr rest (setitem fits (strip (butlast (butlast line))) v) w')"
    using import_loop_step [OF assms(2), of ev fr rest fits w] unfolding k v .
  with k v show ?thesis by blast
qed

text \<open>The amended claim C1 at the line \<open>42\<close> with the evaluator of the fragment.\<close>

theorem line_without_separator_witness:
  "CHR ''='' \<notin> set ''42\<newline>'' \<and> \<not> startswith ''42\<newline>'' ''#'' \<and>
   key_of ''42\<newline>'' = ''4'' \<and> val_of ''42\<newline>'' = ''42'' \<and>
   import_loop (frag_eval counter_funs) (start_frame ''fits.txt'' None None [''42\<newline>''])
     [''42\<newline>''] [] (one_file_world ''42\<newline>'' [])
     = (Inr [(''4'', IntV 42)], one_file_world ''42\<newline>'' [])"
proof -
  have h1: "CHR ''='' \<notin> set ''42\<newline>''" by simp
  have h2: "\<not> startswith ''42\<newline>'' ''#''" by (simp add: startswith_def)
  have s1: "strip (butlast (butlast ''42\<newline>'')) = ''4''" by (simp add: string_defs)
  have s2: "strip (butlast ''42\<newline>'') = ''42''" by (simp add: string_defs)
  have e: "frag_eval counter_funs ''42'' None fr w = (Inr (IntV 42), w)" for fr w
    by (simp add: frag_defs)
  from line_without_separator [OF h1 h2, of "frag_eval counter_funs"
      "start_frame ''fits.txt'' None None [''42\<newline>'']" "[]" "[]"
      "one_file_world ''42\<newline>'' []"]
  show ?thesis
    unfolding s1 s2 using h1 h2 by (simp add: e)
qed

subsection \<open>C2: the key and the expression of a line with a separator\<close>

text \<open>
  Claim C2 says that for every non-comment line with an \<open>=\<close> the key is what stands
  before the first \<open>=\<close>, less the character next to it, stripped. When the \<open>=\<close> is the
  first character of the line that is the empty key, but the code computes
  \<open>line[0:-1]\<close>: for the line \<open>=5\<close> the key is \<open>=5\<close>.
\<close>

theorem leading_separator_counterexample:
  "CHR ''='' \<in> set ''=5\<newline>'' \<and> \<not> startswith ''=5\<newline>'' ''#'' \<and>
   key_of ''=5\<newline>'' = ''=5'' \<and> spec_key ''=5\<newline>'' = []"
  by (simp add: string_defs spec_key_def)

text \<open>
  Claim C2, amended: for every line that contains an \<open>=\<close>, the expression is what
  stands after the first \<open>=\<close> up to, but without, the last character of the line,
  stripped; and when the line does not start with \<open>=\<close>, the key is what stands before the
  first \<open>=\<close> without the one character next to the \<open>=\<close> (whitespace or not), stripped.
\<close>

theorem key_and_expression_at_separator:
  assumes "CHR ''='' \<in> set line"
  shows "val_of line = spec_val line \<and> (hd line \<noteq> CHR ''='' \<longrightarrow> key_of line = spec_key line)"
proof -
  define k where "k = takeWhile (\<lambda>c. c \<noteq> CHR ''='') line"
  define e where "e = tl (dropWhile (\<lambda>c. c \<noteq> CHR ''='') line)"
  have line: "line = k @ CHR ''='' # e"
    unfolding k_def e_def using assms by (rule split_at_separator)
  have k: "CHR ''='' \<notin> set k"
    unfolding k_def by (auto dest: set_takeWhileD)
  have "val_of line = strip (butlast e)"
    using val_of_separator [OF k, of e] line by simp
  then have v: "val_of line = spec_val line"
    by (simp add: spec_val_def e_def)
  have "key_of line = spec_key line" if "hd line \<noteq> CHR ''=''"
  proof -
    from that line have "k \<noteq> []" by (cases k) auto
    from key_of_separator [OF k this, of e] line have "key_of line = strip (butlast k)" by simp
    then show ?thesis by (simp add: spec_key_def k_def)
  qed
  with v show ?thesis by blast
qed

text \<open>The amended claim C2 at the line \<open>ab=5 \<close>: the \<open>b\<close> next to the \<open>=\<close> is lost.\<close>

theorem key_and_expression_at_separator_witness:
  "CHR ''='' \<in> set ''ab=5 \<newline>'' \<and> hd ''ab=5 \<newline>'' \<noteq> CHR ''='' \<and>
   val_of ''ab=5 \<newline>'' = ''5'' \<and> key_of ''ab=5 \<newline>'' = ''a''"
proof -
  have h: "CHR ''='' \<in> set ''ab=5 \<newline>''" by simp
  have "spec_val ''ab=5 \<newline>'' = ''5''" "spec_key ''ab=5 \<newline>'' = ''a''"
    by (simp_all add: spec_val_def spec_key_def strip_def py_isspace_def)
  with key_and_expression_at_separator [OF h] show ?thesis by simp
qed

subsection \<open>C3: one entry for each key, the last occurrence wins\<close>



subsection \<open>C4: the environment built from the symbol source\<close>




subsection \<open>C5: a mapping or an error, never a part of a mapping\<close>



subsection \<open>C6: the absent symbol source\<close>



subsection \<open>C7: a blank line\<close>



subsection \<open>C8: a last line without a newline\<close>

text \<open>
  Claim C8: when the text of the file does not end with a newline and its last line is
  a non-comment line \<open>k = e\<close> (with no \<open>=\<close> in \<open>k\<close>), the character that is cut off the
  end of the line is not a newline but the last character of \<open>e\<close>: the expression that
  is evaluated is \<open>e\<close> without its last character, stripped.
\<close>

theorem last_line_loses_last_character:
  fixes ev :: "('r, 'v, 'e) evaluator"
  assumes "files w filename = Some text"
    and "text \<noteq> []" and "last text \<noteq> CHR 0x0A"
    and "readlines text = pre @ [k @ CHR ''='' # e]"
    and "CHR ''='' \<notin> set k"
    and "\<not> startswith (k @ CHR ''='' # e) ''#''"
    and "(global_dict w m :: 'e error + (string \<times> 'v) list option) = Inr globalDict"
    and "import_loop ev (start_frame filename m globalDict (readlines text)) pre [] w
           = (Inr fits_pre, w_pre)"
  shows "(e \<noteq> [] \<longrightarrow> last e \<noteq> CHR 0x0A) \<and>
         val_of (k @ CHR ''='' # e) = strip (butlast e) \<and>
         import_fits ev w filename m =
           (case ev (strip (butlast e)) globalDict
                   (frame_at (start_frame filename m globalDict (readlines text)) fits_pre
                      (k @ CHR ''='' # e)) w_pre of
              (Inl err, w') \<Rightarrow> (Inl (Raised err), w')
            | (Inr v, w') \<Rightarrow> (Inr (setitem fits_pre (key_of (k @ CHR ''='' # e)) v), w'))"
proof -
  let ?l = "k @ CHR ''='' # e"
  let ?fr = "start_frame filename m globalDict (readlines text)"
  have "last (last (readlines text)) = last text"
    using assms(2) by (rule last_readlines)
  with assms(4) have "last ?l = last text" by simp
  with assms(3) have nl: "e \<noteq> [] \<longrightarrow> last e \<noteq> CHR 0x0A" by auto
  have v: "val_of ?l = strip (butlast e)"
    using assms(5) by (rule val_of_separator)
  have "import_fits ev w filename m = import_loop ev ?fr (pre @ [?l]) [] w"
    using import_fits_open [OF assms(1) assms(7), of ev] assms(4) by simp
  also have "\<dots> = import_loop ev ?fr [?l] fits_pre w_pre"
    using assms(8) by (simp add: import_loop_append)
  also have "\<dots> = (case ev (val_of ?l) globalDict (frame_at ?fr fits_pre ?l) w_pre of
              (Inl err, w') \<Rightarrow> (Inl (Raised err), w')
            | (Inr v, w') \<Rightarrow> (Inr (setitem fits_pre (key_of ?l) v), w'))"
    using assms(6) by (simp split: prod.splits sum.splits)
  finally have "import_fits ev w filename m =
           (case ev (strip (butlast e)) globalDict (frame_at ?fr fits_pre ?l) w_pre of
              (Inl err, w') \<Rightarrow> (Inl (Raised err), w')
            | (Inr v, w') \<Rightarrow> (Inr (setitem fits_pre (key_of ?l) v), w'))"
    unfolding v .
  with nl v show ?thesis by blast
qed

text \<open>Claim C8 on the file \<open>a = 12\<close> without a newline: the value is \<open>1\<close>.\<close>

theorem last_line_loses_last_character_witness:
  "files (one_file_world ''a = 12'' []) ''fits.txt'' = Some ''a = 12'' \<and>
   last ''a = 12'' \<noteq> CHR 0x0A \<and> readlines ''a = 12'' = [] @ [''a '' @ CHR ''='' # '' 12''] \<and>
   val_of ''a = 12'' = ''1'' \<and>
   import_fits (frag_eval counter_funs) (one_file_world ''a = 12'' []) ''fits.txt'' None
     = (Inr [(''a'', IntV 1)], one_file_world ''a = 12'' [])"
proof -
  let ?ev = "frag_eval counter_funs"
  let ?w = "one_file_world ''a = 12'' []"
  have f: "files ?w ''fits.txt'' = Some ''a = 12''"
    by (simp add: one_file_world_def)
  have n: "''a = 12'' \<noteq> []" and nl: "last ''a = 12'' \<noteq> CHR 0x0A" by simp_all
  have r: "readlines ''a = 12'' = [] @ [''a '' @ CHR ''='' # '' 12'']" by simp
  have k: "CHR ''='' \<notin> set ''a ''" by simp
  have c: "\<not> startswith (''a '' @ CHR ''='' # '' 12'') ''#''" by (simp add: startswith_def)
  have g: "(global_dict ?w None :: pyexc error + (string \<times> pyval) list option) = Inr None"
    by (rule global_dict_None)
  have p: "import_loop ?ev (start_frame ''fits.txt'' None None (readlines ''a = 12'')) [] [] ?w
             = (Inr [], ?w)"
    by simp
  have s: "strip (butlast '' 12'') = ''1''"
    by (simp add: strip_def py_isspace_def)
  have e: "?ev ''1'' None fr ?w = (Inr (IntV 1), ?w)" for fr
    by (simp add: frag_defs)
  have ky: "key_of ''a = 12'' = ''a''"
    by (simp add: string_defs)
  from last_line_loses_last_character [where ev = ?ev, OF f n nl r k c g p]
  show ?thesis
    unfolding s using f nl r ky by (simp add: e)
qed

subsection \<open>C9: a file of comments\<close>

text \<open>
  Claim C9: when every line of the file starts with \<open>#\<close>, \<open>import_fits\<close> returns the
  empty dictionary (and evaluates nothing).
\<close>

theorem only_comments_empty_mapping:
  fixes ev :: "('r, 'v, 'e) evaluator"
  assumes "files w filename = Some text"
    and "\<forall>l \<in> set (readlines text). startswith l ''#''"
  shows "import_fits ev w filename m = (Inr [], w)"
proof -
  obtain globalDict where
    g: "(global_dict w m :: 'e error + (string \<times> 'v) list option) = Inr globalDict"
    using global_dict_total [of w m] by blast
  have "import_fits ev w filename m =
          import_loop ev (start_frame filename m globalDict (readlines text)) (readlines text) [] w"
    using assms(1) g by (rule import_fits_open)
  also have "\<dots> = (Inr [], w)"
    using assms(2) by (rule import_loop_comments)
  finally show ?thesis .
qed

text \<open>Claim C9 on a file of three comment lines.\<close>

theorem only_comments_empty_mapping_witness:
  "files (one_file_world ''# fits\<newline>#alum = 1\<newline>#'' counter_module) ''fits.txt''
     = Some ''# fits\<newline>#alum = 1\<newline>#'' \<and>
   readlines ''# fits\<newline>#alum = 1\<newline>#'' = [''# fits\<newline>'', ''#alum = 1\<newline>'', ''#''] \<and>
   import_fits (frag_eval counter_funs)
     (one_file_world ''# fits\<newline>#alum = 1\<newline>#'' counter_module) ''fits.txt'' (Some 0)
     = (Inr [], one_file_world ''# fits\<newline>#alum = 1\<newline>#'' counter_module)"
proof -
  have f: "files (one_file_world ''# fits\<newline>#alum = 1\<newline>#'' counter_module) ''fits.txt''
     = Some ''# fits\<newline>#alum = 1\<newline>#''"
    by (simp add: one_file_world_def)
  have r: "readlines ''# fits\<newline>#alum = 1\<newline>#'' = [''# fits\<newline>'', ''#alum = 1\<newline>'', ''#'']"
    by simp
  have c: "\<forall>l \<in> set (readlines ''# fits\<newline>#alum = 1\<newline>#''). startswith l ''#''"
    unfolding r by (simp add: startswith_def)
  from only_comments_empty_mapping [OF f c, of "frag_eval counter_funs" "Some 0"] f r
  show ?thesis by simp
qed

subsection \<open>C10: the symbol source is only read\<close>




end
